theory Spec2Isabelle
  imports Main
begin

section \<open>Outcomes of a method call\<close>

text \<open>
  Both methods of \<^verbatim>\<open>ShuntingYardSample.cpp\<close> return a \<^verbatim>\<open>bool\<close> and write their
  result through a reference parameter. Every \<^verbatim>\<open>return false\<close> of the source is preceded by
  a message that identifies the failure point:
  \<^item> \<open>MismatchedParenthesis\<close>: "Failure Point: Mismatched parenthesis" (lines 177 and 203);
  \<^item> \<open>InvalidToken\<close>: "Failure Point: Default condition" (line 186) in the shunter and
    "Invalid expression. Returning 0." (line 354) in the calculator;
  \<^item> \<open>InsufficientOperands\<close>: "Not enough arguements. Evaluation failed" (line 346).
\<close>

datatype failure = MismatchedParenthesis | InvalidToken | InsufficientOperands

text \<open>
  An outcome carries the state of the object and of the reference parameter after the call.
  \<open>Success\<close> is \<^verbatim>\<open>return true\<close>, \<open>Failure\<close> is \<^verbatim>\<open>return false\<close>. \<open>OutOfRange\<close> is the
  exception \<^verbatim>\<open>std::out_of_range\<close> of \<^verbatim>\<open>std::stoi\<close>, which nothing in the program catches.
  \<open>Undefined\<close> stands for an execution that C++ gives no meaning: \<^verbatim>\<open>top()\<close> on an empty
  \<^verbatim>\<open>std::stack\<close>, signed overflow, division by zero.
\<close>

datatype 'a outcome = Success 'a | Failure failure 'a | OutOfRange | Undefined

text \<open>One iteration of a \<^verbatim>\<open>for\<close> loop either falls through to the next one or returns.\<close>

datatype ('s, 'r) flow = Next 's | Return 'r

fun returns_false :: "'a outcome \<Rightarrow> bool" where
  "returns_false (Failure f a) = True"
| "returns_false (Success a) = False"
| "returns_false OutOfRange = False"
| "returns_false Undefined = False"

section \<open>Global methods (lines 40--86)\<close>

definition isOperator :: "string \<Rightarrow> bool" where
  "isOperator token \<longleftrightarrow>
     token = ''+'' \<or> token = ''-'' \<or> token = ''*'' \<or> token = ''/''"

definition isParenthesis :: "string \<Rightarrow> bool" where
  "isParenthesis token \<longleftrightarrow> token = ''('' \<or> token = '')''"

text \<open>
  \<^verbatim>\<open>isdigit\<close> in the "C" locale: the ten characters \<^verbatim>\<open>'0'\<close> to \<^verbatim>\<open>'9'\<close> (codes 48 to 57).
  Bytes above 127 are classified as non-digits, as the tables of the C libraries do.
\<close>

definition isdigit :: "char \<Rightarrow> bool" where
  "isdigit c \<longleftrightarrow> (48::nat) \<le> of_char c \<and> of_char c \<le> (57::nat)"

text \<open>
  The loop of \<^verbatim>\<open>verifyInteger\<close> (lines 66--83), with the flag \<^verbatim>\<open>isInteger\<close> as the second
  argument: a non-digit returns \<^verbatim>\<open>false\<close> at once, a digit sets the flag.
\<close>

fun verifyInteger_loop :: "string \<Rightarrow> bool \<Rightarrow> bool" where
  "verifyInteger_loop [] isInteger = isInteger"
| "verifyInteger_loop (c # cs) isInteger =
     (if isdigit c then verifyInteger_loop cs True else False)"

definition verifyInteger :: "string \<Rightarrow> bool" where
  "verifyInteger token = verifyInteger_loop token False"

section \<open>The shunting yard (lines 90--224)\<close>

text \<open>
  The private members of class \<^verbatim>\<open>ShuntingYard\<close>. The head of \<open>operatorStack\<close> is the top of
  the \<^verbatim>\<open>std::stack\<close>; the head of \<open>outputQueue\<close> is the front of the \<^verbatim>\<open>std::queue\<close>, and
  \<^verbatim>\<open>push\<close> appends at the back.
\<close>

record ShuntingYard =
  operatorStack :: "string list"
  outputQueue :: "string list"

definition newShuntingYard :: ShuntingYard where
  "newShuntingYard = \<lparr>operatorStack = [], outputQueue = []\<rparr>"

text \<open>
  The \<^verbatim>\<open>while\<close> loop of lines 155--167. On entry \<^verbatim>\<open>topOperatorStackToken\<close> is the top of
  the stack: the second argument is the stack below it. The loop moves the top to the output
  queue and pops it, leaves when the stack is emptied, and reads the new top otherwise. It
  yields the cached token, the stack and the queue at the exit of the loop.
\<close>

fun popUntilLeft :: "string \<Rightarrow> string list \<Rightarrow> string list \<Rightarrow> string \<times> string list \<times> string list" where
  "popUntilLeft topOperatorStackToken [] queue =
     (if topOperatorStackToken = ''(''
        then (topOperatorStackToken, [topOperatorStackToken], queue)
      else (topOperatorStackToken, [], queue @ [topOperatorStackToken]))"
| "popUntilLeft topOperatorStackToken (t # below) queue =
     (if topOperatorStackToken = ''(''
        then (topOperatorStackToken, topOperatorStackToken # t # below, queue)
      else popUntilLeft t below (queue @ [topOperatorStackToken]))"

text \<open>
  The branch for a right bracket (lines 144--180). Line 147 reads \<^verbatim>\<open>operatorStack.top()\<close>
  before any test for emptiness: on an empty stack the read is undefined.
\<close>

definition closeParenthesis :: "ShuntingYard \<Rightarrow> string list \<Rightarrow> (ShuntingYard, (ShuntingYard \<times> string list) outcome) flow" where
  "closeParenthesis s returnArray =
     (case operatorStack s of
        [] \<Rightarrow> Return Undefined
      | t # below \<Rightarrow>
          (case popUntilLeft t below (outputQueue s) of
             (topOperatorStackToken, stack, queue) \<Rightarrow>
               (let s' = \<lparr>operatorStack = (if stack = [] then stack else tl stack),
                         outputQueue = queue\<rparr>
                in if topOperatorStackToken = ''('' then Next s'
                   else Return (Failure MismatchedParenthesis (s', returnArray)))))"

text \<open>
  The body of the \<^verbatim>\<open>for\<close> loop (lines 120--190) for one token. The literal \<^verbatim>\<open>"\0"\<close> of line
  184 is compared as a C string, which ends at its first null character: the comparison is
  with the empty string.
\<close>

definition shuntToken :: "ShuntingYard \<Rightarrow> string \<Rightarrow> string list \<Rightarrow> (ShuntingYard, (ShuntingYard \<times> string list) outcome) flow" where
  "shuntToken s currentToken returnArray =
     (if verifyInteger currentToken
        then Next (s\<lparr>outputQueue := outputQueue s @ [currentToken]\<rparr>)
      else if isOperator currentToken
        then Next (s\<lparr>operatorStack := currentToken # operatorStack s\<rparr>)
      else if currentToken = ''(''
        then Next (s\<lparr>operatorStack := currentToken # operatorStack s\<rparr>)
      else if currentToken = '')''
        then closeParenthesis s returnArray
      else if currentToken = []
        then Next s
      else Return (Failure InvalidToken (s, returnArray)))"

fun shuntLoop :: "ShuntingYard \<Rightarrow> string list \<Rightarrow> string list \<Rightarrow> (ShuntingYard, (ShuntingYard \<times> string list) outcome) flow" where
  "shuntLoop s [] returnArray = Next s"
| "shuntLoop s (currentToken # inputTokens) returnArray =
     (case shuntToken s currentToken returnArray of
        Next s' \<Rightarrow> shuntLoop s' inputTokens returnArray
      | Return r \<Rightarrow> Return r)"

text \<open>The loop that clears the operator stack (lines 195--210).\<close>

fun drainLoop :: "string list \<Rightarrow> string list \<Rightarrow> string list \<Rightarrow> (ShuntingYard, (ShuntingYard \<times> string list) outcome) flow" where
  "drainLoop [] queue returnArray = Next \<lparr>operatorStack = [], outputQueue = queue\<rparr>"
| "drainLoop (topOperatorStackToken # below) queue returnArray =
     (if isParenthesis topOperatorStackToken
        then Return (Failure MismatchedParenthesis
               (\<lparr>operatorStack = topOperatorStackToken # below, outputQueue = queue\<rparr>, returnArray))
      else drainLoop below (queue @ [topOperatorStackToken]) returnArray)"

text \<open>The loop that copies the output queue to the return array (lines 213--221).\<close>

fun copyLoop :: "string list \<Rightarrow> string list \<Rightarrow> string list \<times> string list" where
  "copyLoop [] returnArray = ([], returnArray)"
| "copyLoop (front # queue) returnArray = copyLoop queue (returnArray @ [front])"

definition shuntInfixToRPN :: "ShuntingYard \<Rightarrow> string list \<Rightarrow> string list \<Rightarrow> (ShuntingYard \<times> string list) outcome" where
  "shuntInfixToRPN s inputTokens returnArray =
     (case shuntLoop s inputTokens returnArray of
        Return r \<Rightarrow> r
      | Next s1 \<Rightarrow>
          (case drainLoop (operatorStack s1) (outputQueue s1) returnArray of
             Return r \<Rightarrow> r
           | Next s2 \<Rightarrow>
               (case copyLoop (outputQueue s2) returnArray of
                  (queue, returnArray') \<Rightarrow>
                    Success (s2\<lparr>outputQueue := queue\<rparr>, returnArray'))))"

section \<open>The calculator (lines 228--364)\<close>

text \<open>
  The values are of type \<^verbatim>\<open>int\<close>, here 32 bits wide. Signed arithmetic has no wrap-around in
  C++: a result outside the range of the type is undefined, as is a division by zero.
\<close>

definition INT_MAX :: int where
  "INT_MAX = 2147483647"

definition INT_MIN :: int where
  "INT_MIN = - 2147483648"

text \<open>The quotient of \<^verbatim>\<open>/\<close> on \<^verbatim>\<open>int\<close> is rounded towards zero.\<close>

definition truncDiv :: "int \<Rightarrow> int \<Rightarrow> int" where
  "truncDiv a b = sgn a * sgn b * (\<bar>a\<bar> div \<bar>b\<bar>)"

text \<open>
  \<^verbatim>\<open>std::stoi\<close> on a token of decimal digits (it is called on no other token, line 260): the
  value in base ten, or the exception \<^verbatim>\<open>std::out_of_range\<close> (\<open>None\<close>) when the value does not
  fit an \<^verbatim>\<open>int\<close>.
\<close>

fun digitsValue :: "string \<Rightarrow> nat \<Rightarrow> nat" where
  "digitsValue [] n = n"
| "digitsValue (c # cs) n = digitsValue cs (10 * n + (of_char c - 48))"

definition stoi :: "string \<Rightarrow> int option" where
  "stoi token =
     (let n = int (digitsValue token 0) in if n \<le> INT_MAX then Some n else None)"

text \<open>
  The private member of class \<^verbatim>\<open>RPN\<close>; the head of \<open>valueStack\<close> is the top of the stack.
\<close>

record RPN =
  valueStack :: "int list"

definition newRPN :: RPN where
  "newRPN = \<lparr>valueStack = []\<rparr>"

text \<open>
  \<^verbatim>\<open>valueStack.push(tmpResult)\<close> for a \<^verbatim>\<open>tmpResult\<close> computed by signed arithmetic on the two
  popped arguments, \<open>rest\<close> being the stack below them.
\<close>

definition pushResult :: "int \<Rightarrow> int list \<Rightarrow> int \<Rightarrow> (RPN, (RPN \<times> int) outcome) flow" where
  "pushResult tmpResult rest result =
     (if INT_MIN \<le> tmpResult \<and> tmpResult \<le> INT_MAX
        then Next \<lparr>valueStack = tmpResult # rest\<rparr>
      else Return Undefined)"

text \<open>
  The branch for an operator token (lines 264--349), by the size of the value stack in the
  order of the source: exactly one value (line 271), two or more (line 280), none (line 343).
  In each arithmetic branch \<open>arg1\<close> is the value popped first and \<open>arg2\<close> the one popped
  second. Line 327 is an \<^verbatim>\<open>if\<close> and not an \<^verbatim>\<open>else if\<close>; the token is the same as in the
  three tests before it, so at most one of the four branches runs.
\<close>

fun applyOperator :: "string \<Rightarrow> int list \<Rightarrow> int \<Rightarrow> (RPN, (RPN \<times> int) outcome) flow" where
  "applyOperator currentToken [v] result = Return (Success (\<lparr>valueStack = []\<rparr>, v))"
| "applyOperator currentToken (arg1 # arg2 # rest) result =
     (if currentToken = ''+'' then pushResult (arg1 + arg2) rest result
      else if currentToken = ''-'' then pushResult (arg1 - arg2) rest result
      else if currentToken = ''*'' then pushResult (arg1 * arg2) rest result
      else if currentToken = ''/''
        then (if arg1 = 0 then Return Undefined
              else pushResult (truncDiv arg2 arg1) rest result)
      else Next \<lparr>valueStack = arg1 # arg2 # rest\<rparr>)"
| "applyOperator currentToken [] result =
     Return (Failure InsufficientOperands (\<lparr>valueStack = []\<rparr>, result))"

text \<open>The body of the \<^verbatim>\<open>for\<close> loop (lines 253--356) for one token.\<close>

definition calcToken :: "RPN \<Rightarrow> string \<Rightarrow> int \<Rightarrow> (RPN, (RPN \<times> int) outcome) flow" where
  "calcToken s currentToken result =
     (if verifyInteger currentToken
        then (case stoi currentToken of
                None \<Rightarrow> Return OutOfRange
              | Some v \<Rightarrow> Next (s\<lparr>valueStack := v # valueStack s\<rparr>))
      else if isOperator currentToken
        then applyOperator currentToken (valueStack s) result
      else Return (Failure InvalidToken (s, result)))"

fun calcLoop :: "RPN \<Rightarrow> string list \<Rightarrow> int \<Rightarrow> (RPN, (RPN \<times> int) outcome) flow" where
  "calcLoop s [] result = Next s"
| "calcLoop s (currentToken # inputTokens) result =
     (case calcToken s currentToken result of
        Next s' \<Rightarrow> calcLoop s' inputTokens result
      | Return r \<Rightarrow> Return r)"

text \<open>
  After the loop, lines 362--363 read \<^verbatim>\<open>valueStack.top()\<close> with no test of the size of the
  stack and return \<^verbatim>\<open>true\<close>; the value is not popped.
\<close>

definition calculatePostfix :: "RPN \<Rightarrow> string list \<Rightarrow> int \<Rightarrow> (RPN \<times> int) outcome" where
  "calculatePostfix s inputTokens result =
     (case calcLoop s inputTokens result of
        Return r \<Rightarrow> r
      | Next s' \<Rightarrow>
          (case valueStack s' of
             [] \<Rightarrow> Undefined
           | v # below \<Rightarrow> Success (s', v)))"

section \<open>The function \<^verbatim>\<open>evaluate\<close> (lines 382--444)\<close>

text \<open>
  \<^verbatim>\<open>operator>>\<close> of a stream on a \<^verbatim>\<open>std::string\<close> skips white space (\<^verbatim>\<open>isspace\<close> of the "C"
  locale: the space and the codes 9 to 13) and reads up to the next white space.
\<close>

definition isspace :: "char \<Rightarrow> bool" where
  "isspace c \<longleftrightarrow> of_char c = (32::nat) \<or> ((9::nat) \<le> of_char c \<and> of_char c \<le> (13::nat))"

text \<open>
  The loop of lines 404--416 on the rest of the stream. An extraction that reaches the end
  of the stream and reads nothing fails, leaves \<^verbatim>\<open>temp\<close> empty and ends the loop, after the
  empty \<^verbatim>\<open>temp\<close> has been pushed: the token vector always ends with an empty token.
\<close>

function tokenise :: "string \<Rightarrow> string list" where
  "tokenise stream =
     (case dropWhile isspace stream of
        [] \<Rightarrow> [[]]
      | c # cs \<Rightarrow>
          (c # takeWhile (\<lambda>x. \<not> isspace x) cs) # tokenise (dropWhile (\<lambda>x. \<not> isspace x) cs))"
  by pat_completeness auto
termination
proof (relation "measure length")
  show "wf (measure length)" by simp
next
  fix stream :: string and c cs
  assume a: "dropWhile isspace stream = c # cs"
  have "length (dropWhile (\<lambda>x. \<not> isspace x) cs) \<le> length cs"
    by (rule length_dropWhile_le)
  moreover have "length (c # cs) \<le> length stream"
    using length_dropWhile_le [of isspace stream] a by simp
  ultimately show "(dropWhile (\<lambda>x. \<not> isspace x) cs, stream) \<in> measure length"
    by simp
qed

declare tokenise.simps [simp del]

definition evaluate :: "string \<Rightarrow> int \<Rightarrow> int outcome" where
  "evaluate expression result =
     (case shuntInfixToRPN newShuntingYard (tokenise expression) [] of
        Success (shunter, shuntedOutput) \<Rightarrow>
          (case calculatePostfix newRPN shuntedOutput result of
             Success (rpn, result') \<Rightarrow> Success result'
           | Failure f (rpn, result') \<Rightarrow> Failure f result'
           | OutOfRange \<Rightarrow> OutOfRange
           | Undefined \<Rightarrow> Undefined)
      | Failure f a \<Rightarrow> Failure f result
      | OutOfRange \<Rightarrow> OutOfRange
      | Undefined \<Rightarrow> Undefined)"

section \<open>Basic facts about the loops and the token classes\<close>

lemma shuntLoop_append:
  "shuntLoop s (xs @ ys) ra =
     (case shuntLoop s xs ra of Next s' \<Rightarrow> shuntLoop s' ys ra | Return r \<Rightarrow> Return r)"
  by (induction xs arbitrary: s) (simp_all split: flow.splits)

lemma calcLoop_append:
  "calcLoop s (xs @ ys) r =
     (case calcLoop s xs r of Next s' \<Rightarrow> calcLoop s' ys r | Return out \<Rightarrow> Return out)"
  by (induction xs arbitrary: s) (simp_all split: flow.splits)

lemma copyLoop_eq: "copyLoop queue ra = ([], ra @ queue)"
  by (induction queue arbitrary: ra) simp_all

lemma verifyInteger_loop_digits:
  "verifyInteger_loop token b \<longleftrightarrow> (\<forall>c \<in> set token. isdigit c) \<and> (b \<or> token \<noteq> [])"
  by (induction token arbitrary: b) auto

lemma verifyInteger_iff:
  "verifyInteger token \<longleftrightarrow> token \<noteq> [] \<and> (\<forall>c \<in> set token. isdigit c)"
  by (auto simp: verifyInteger_def verifyInteger_loop_digits)

lemma isOperator_not_integer: "isOperator tok \<Longrightarrow> \<not> verifyInteger tok"
  by (auto simp: isOperator_def verifyInteger_iff isdigit_def)

lemma isParenthesis_not_integer: "isParenthesis tok \<Longrightarrow> \<not> verifyInteger tok"
  by (auto simp: isParenthesis_def verifyInteger_iff isdigit_def)

lemma isParenthesis_not_operator: "isParenthesis tok \<Longrightarrow> \<not> isOperator tok"
  by (auto simp: isParenthesis_def isOperator_def)

lemma shuntToken_empty: "shuntToken s [] ra = Next s"
  by (simp add: shuntToken_def verifyInteger_def isOperator_def)

section \<open>Operand order of the arithmetic branches\<close>

lemma calcToken_operator:
  "isOperator tok \<Longrightarrow> calcToken s tok result = applyOperator tok (valueStack s) result"
  by (simp add: calcToken_def isOperator_not_integer)

lemma division_operand_order:
  "applyOperator ''/'' (arg1 # arg2 # rest) result =
     (if arg1 = 0 then Return Undefined else pushResult (truncDiv arg2 arg1) rest result)"
  by simp

text \<open>
  Claim C1. The claim gives subtraction and division the operand order \<open>arg2 OP arg1\<close>, so
  that the postfix of \<^verbatim>\<open>a - b\<close> yields \<open>a - b\<close>. The division branch (line 338) has this
  order, as \<open>division_operand_order\<close> shows, and its comment gives the reason. The
  subtraction branch (line 310) computes \<open>arg1 - arg2\<close>, the value popped first minus the
  value popped second: the postfix 5 3 - of \<^verbatim>\<open>5 - 3\<close> evaluates to \<open>- 2\<close>, and so does
  \<^verbatim>\<open>evaluate\<close> on the string \<^verbatim>\<open>"5 - 3"\<close>.
\<close>

theorem subtraction_operands_swapped:
  "applyOperator ''-'' (arg1 # arg2 # rest) result = pushResult (arg1 - arg2) rest result
   \<and> calculatePostfix newRPN [''5'', ''3'', ''-''] result = Success (\<lparr>valueStack = [- 2]\<rparr>, - 2)
   \<and> evaluate ''5 - 3'' result = Success (- 2)"
proof -
  have tokens: "tokenise ''5 - 3'' = [''5'', ''-'', ''3'', []]"
    by code_simp
  have shunted: "shuntInfixToRPN newShuntingYard [''5'', ''-'', ''3'', []] [] =
      Success (newShuntingYard, [''5'', ''3'', ''-''])"
    by code_simp
  have calculated:
    "calculatePostfix newRPN [''5'', ''3'', ''-''] result = Success (\<lparr>valueStack = [- 2]\<rparr>, - 2)"
    by code_simp
  show ?thesis
    by (simp add: evaluate_def tokens shunted calculated)
qed

section \<open>Division\<close>

lemma truncDiv_abs_le: "\<bar>truncDiv a b\<bar> \<le> \<bar>a\<bar> div \<bar>b\<bar>"
proof -
  define q where "q = \<bar>a\<bar> div \<bar>b\<bar>"
  have "0 \<le> q"
    unfolding q_def by (cases "b = 0") (simp_all add: pos_imp_zdiv_nonneg_iff)
  moreover have "truncDiv a b = sgn a * sgn b * q"
    by (simp add: truncDiv_def q_def)
  ultimately have "\<bar>truncDiv a b\<bar> \<le> q"
    by (simp add: sgn_if)
  then show ?thesis
    by (simp add: q_def)
qed

lemma truncDiv_bound: "b \<noteq> 0 \<Longrightarrow> \<bar>truncDiv a b\<bar> \<le> \<bar>a\<bar>"
proof -
  assume b: "b \<noteq> 0"
  have "\<bar>a\<bar> div \<bar>b\<bar> \<le> \<bar>a\<bar> div 1"
    using b by (intro zdiv_mono2) simp_all
  then show ?thesis
    using truncDiv_abs_le [of a b] by simp
qed

text \<open>The only quotient of two \<^verbatim>\<open>int\<close> values that does not fit an \<^verbatim>\<open>int\<close> is \<open>INT_MIN / -1\<close>.\<close>

lemma truncDiv_in_range:
  assumes b: "b \<noteq> 0" and lo: "INT_MIN \<le> a" and hi: "a \<le> INT_MAX"
    and ne: "\<not> (a = INT_MIN \<and> b = - 1)"
  shows "INT_MIN \<le> truncDiv a b \<and> truncDiv a b \<le> INT_MAX"
proof (cases "a = INT_MIN")
  case False
  then have "\<bar>a\<bar> \<le> 2147483647"
    using lo hi by (simp add: INT_MIN_def INT_MAX_def)
  then have "\<bar>truncDiv a b\<bar> \<le> 2147483647"
    using truncDiv_bound [OF b, of a] by linarith
  then show ?thesis
    unfolding INT_MIN_def INT_MAX_def by linarith
next
  case True
  show ?thesis
  proof (cases "b = 1")
    case True
    with \<open>a = INT_MIN\<close> show ?thesis
      by (simp add: truncDiv_def INT_MIN_def INT_MAX_def)
  next
    case False
    with b ne True have "2 \<le> \<bar>b\<bar>" by linarith
    then have "\<bar>a\<bar> div \<bar>b\<bar> \<le> \<bar>a\<bar> div 2"
      by (intro zdiv_mono2) simp_all
    then have "\<bar>truncDiv a b\<bar> \<le> \<bar>a\<bar> div 2"
      using truncDiv_abs_le [of a b] by linarith
    then have "\<bar>truncDiv a b\<bar> \<le> 1073741824"
      using True by (simp add: INT_MIN_def)
    then show ?thesis
      unfolding INT_MIN_def INT_MAX_def by linarith
  qed
qed

lemma isOperator_division: "isOperator ''/''"
  by (simp add: isOperator_def)

lemma evaluate_ten_by_three: "evaluate ''( 10 / 3 )'' result = Success 3"
proof -
  have tokens: "tokenise ''( 10 / 3 )'' = [''('', ''10'', ''/'', ''3'', '')'', []]"
    by code_simp
  have shunted: "shuntInfixToRPN newShuntingYard [''('', ''10'', ''/'', ''3'', '')'', []] [] =
      Success (newShuntingYard, [''10'', ''3'', ''/''])"
    by code_simp
  have calculated:
    "calculatePostfix newRPN [''10'', ''3'', ''/''] result = Success (\<lparr>valueStack = [3]\<rparr>, 3)"
    by code_simp
  show ?thesis
    by (simp add: evaluate_def tokens shunted calculated)
qed

text \<open>
  Claim C2, as stated, fails on the code: the division branch (lines 327--340) has no test
  of the divisor. On the postfix 5 0 / of \<^verbatim>\<open>( 5 / 0 )\<close> the division by zero is executed,
  which is undefined; the call does not return \<^verbatim>\<open>false\<close>, with any message. With a
  divisor that is not zero, the one quotient that is not the truncated one is that of
  \<open>INT_MIN\<close> by \<open>-1\<close>, which overflows.
\<close>

theorem division_by_zero_undefined:
  "calculatePostfix newRPN [''5'', ''0'', ''/''] 0 = Undefined
   \<and> evaluate ''( 5 / 0 )'' 0 = Undefined
   \<and> \<not> returns_false (evaluate ''( 5 / 0 )'' 0)
   \<and> calcToken \<lparr>valueStack = [- 1, - 2147483648]\<rparr> ''/'' 0 = Return Undefined"
proof -
  have overflow: "calcToken \<lparr>valueStack = [- 1, - 2147483648]\<rparr> ''/'' 0 = Return Undefined"
    by code_simp
  have tokens: "tokenise ''( 5 / 0 )'' = [''('', ''5'', ''/'', ''0'', '')'', []]"
    by code_simp
  have shunted: "shuntInfixToRPN newShuntingYard [''('', ''5'', ''/'', ''0'', '')'', []] [] =
      Success (newShuntingYard, [''5'', ''0'', ''/''])"
    by code_simp
  have calculated: "calculatePostfix newRPN [''5'', ''0'', ''/''] 0 = Undefined"
    by code_simp
  show ?thesis
    by (simp add: evaluate_def tokens shunted calculated overflow)
qed

text \<open>
  Claim C2, amended. For a division token on a stack of two or more values, with \<open>arg1\<close> the
  value popped first: when \<open>arg1\<close> is not zero (and the quotient fits an \<^verbatim>\<open>int\<close>, which
  excludes only \<open>INT_MIN / -1\<close>), the two values are replaced by the quotient of \<open>arg2\<close> by
  \<open>arg1\<close> rounded towards zero; \<^verbatim>\<open>"( 10 / 3 )"\<close> evaluates to 3. When \<open>arg1\<close> is zero no
  failure is reported: the division is undefined.
\<close>

theorem division_truncates:
  "(arg1 \<noteq> 0 \<and> INT_MIN \<le> arg2 \<and> arg2 \<le> INT_MAX \<and> \<not> (arg2 = INT_MIN \<and> arg1 = - 1) \<longrightarrow>
      calcToken \<lparr>valueStack = arg1 # arg2 # rest\<rparr> ''/'' result =
        Next \<lparr>valueStack = truncDiv arg2 arg1 # rest\<rparr>)
   \<and> (arg1 = 0 \<longrightarrow>
      calcToken \<lparr>valueStack = arg1 # arg2 # rest\<rparr> ''/'' result = Return Undefined)
   \<and> evaluate ''( 10 / 3 )'' result = Success 3"
proof (intro conjI impI)
  assume a: "arg1 \<noteq> 0 \<and> INT_MIN \<le> arg2 \<and> arg2 \<le> INT_MAX \<and> \<not> (arg2 = INT_MIN \<and> arg1 = - 1)"
  then have "INT_MIN \<le> truncDiv arg2 arg1 \<and> truncDiv arg2 arg1 \<le> INT_MAX"
    by (intro truncDiv_in_range) simp_all
  with a show "calcToken \<lparr>valueStack = arg1 # arg2 # rest\<rparr> ''/'' result =
        Next \<lparr>valueStack = truncDiv arg2 arg1 # rest\<rparr>"
    by (simp add: calcToken_operator isOperator_division pushResult_def)
next
  assume "arg1 = 0"
  then show "calcToken \<lparr>valueStack = arg1 # arg2 # rest\<rparr> ''/'' result = Return Undefined"
    by (simp add: calcToken_operator isOperator_division)
next
  show "evaluate ''( 10 / 3 )'' result = Success 3"
    by (rule evaluate_ten_by_three)
qed

theorem division_truncates_witness:
  "calcToken \<lparr>valueStack = [3, 10]\<rparr> ''/'' 0 = Next \<lparr>valueStack = [3]\<rparr>
   \<and> calcToken \<lparr>valueStack = [- 2, 7]\<rparr> ''/'' 0 = Next \<lparr>valueStack = [- 3]\<rparr>
   \<and> calcToken \<lparr>valueStack = [0, 5]\<rparr> ''/'' 0 = Return Undefined"
  using division_truncates [of 3 10 "[]" 0] division_truncates [of "- 2" 7 "[]" 0]
    division_truncates [of 0 5 "[]" 0]
  by (simp add: truncDiv_def INT_MIN_def INT_MAX_def)

section \<open>The end of the calculation\<close>

text \<open>
  Claim C3, as stated, fails on the code: lines 362--363 have no test of the size of the
  stack. The postfix 1 2 is processed to the end and leaves two values; the call returns
  \<^verbatim>\<open>true\<close> with the top one. The empty postfix leaves no value, and the read of the top is
  undefined. No failure is reported in either case.
\<close>

theorem leftover_values_still_succeed:
  "calcLoop newRPN [''1'', ''2''] 0 = Next \<lparr>valueStack = [2, 1]\<rparr>
   \<and> calculatePostfix newRPN [''1'', ''2''] 0 = Success (\<lparr>valueStack = [2, 1]\<rparr>, 2)
   \<and> calcLoop newRPN [] 0 = Next \<lparr>valueStack = []\<rparr>
   \<and> calculatePostfix newRPN [] 0 = Undefined"
  by code_simp

text \<open>
  Claim C3, amended. When the loop has processed every token without an early return and the
  value stack then holds one value or more, the call returns \<^verbatim>\<open>true\<close> and the result is the
  top of the stack (the sole value, when there is exactly one); the stack is left as it is.
\<close>

theorem final_result_is_top_of_stack:
  "calcLoop s inputTokens result = Next s' \<Longrightarrow> valueStack s' = v # below \<Longrightarrow>
     calculatePostfix s inputTokens result = Success (s', v)"
  by (simp add: calculatePostfix_def)

theorem final_result_is_top_of_stack_witness:
  "calculatePostfix newRPN [''7''] 0 = Success (\<lparr>valueStack = [7]\<rparr>, 7)
   \<and> calculatePostfix newRPN [''1'', ''2'', ''3''] 0 = Success (\<lparr>valueStack = [3, 2, 1]\<rparr>, 3)"
proof -
  have one: "calcLoop newRPN [''7''] 0 = Next \<lparr>valueStack = [7]\<rparr>"
    by code_simp
  have three: "calcLoop newRPN [''1'', ''2'', ''3''] 0 = Next \<lparr>valueStack = [3, 2, 1]\<rparr>"
    by code_simp
  show ?thesis
    using final_result_is_top_of_stack [OF one, of 7 "[]"]
      final_result_is_top_of_stack [OF three, of 3 "[2, 1]"]
    by simp
qed

section \<open>Mismatched parentheses\<close>

text \<open>
  A right bracket on a stack that is not empty and holds no left bracket: the loop moves the
  whole stack to the output queue and line 178 returns \<^verbatim>\<open>false\<close>.
\<close>

lemma popUntilLeft_no_left:
  "''('' \<notin> set (t # below) \<Longrightarrow>
     popUntilLeft t below q = (last (t # below), [], q @ t # below)"
  by (induction t below q rule: popUntilLeft.induct) auto

lemma right_bracket_without_left:
  assumes "operatorStack s = t # below" and "''('' \<notin> set (t # below)"
  shows "shuntToken s '')'' ra =
     Return (Failure MismatchedParenthesis
       (\<lparr>operatorStack = [], outputQueue = outputQueue s @ t # below\<rparr>, ra))"
proof -
  have "last (t # below) \<noteq> ''(''"
    using assms(2) last_in_set [of "t # below"] by auto
  then have "closeParenthesis s ra =
     Return (Failure MismatchedParenthesis
       (\<lparr>operatorStack = [], outputQueue = outputQueue s @ t # below\<rparr>, ra))"
    using assms by (simp add: closeParenthesis_def popUntilLeft_no_left)
  then show ?thesis
    by (simp add: shuntToken_def verifyInteger_iff isdigit_def isOperator_def)
qed

text \<open>A bracket left on the stack when the tokens are consumed: line 204 returns \<^verbatim>\<open>false\<close>.\<close>

lemma drainLoop_parenthesis:
  "\<exists>t \<in> set stk. isParenthesis t \<Longrightarrow>
     \<exists>s'. drainLoop stk q ra = Return (Failure MismatchedParenthesis (s', ra))"
  by (induction stk q ra rule: drainLoop.induct) auto

lemma unclosed_sample:
  "shuntInfixToRPN newShuntingYard (tokenise ''( 1 + ( 12 * 2 )'') ra =
     Failure MismatchedParenthesis
       (\<lparr>operatorStack = [''(''], outputQueue = [''1'', ''12'', ''2'', ''*'', ''+'']\<rparr>, ra)"
proof -
  have tokens: "tokenise ''( 1 + ( 12 * 2 )'' =
      [''('', ''1'', ''+'', ''('', ''12'', ''*'', ''2'', '')'', []]"
    by code_simp
  have "shuntInfixToRPN newShuntingYard
      [''('', ''1'', ''+'', ''('', ''12'', ''*'', ''2'', '')'', []] ra =
     Failure MismatchedParenthesis
       (\<lparr>operatorStack = [''(''], outputQueue = [''1'', ''12'', ''2'', ''*'', ''+'']\<rparr>, ra)"
    by code_simp
  then show ?thesis
    by (simp add: tokens)
qed

text \<open>
  Claim C4. The claim has the shunter fail with a mismatched parenthesis also when a right
  bracket meets an operator stack that is already empty. The code reports the failure when
  the stack is emptied by the loop (\<open>right_bracket_without_left\<close>), when a bracket is left
  at the end (\<open>drainLoop_parenthesis\<close>) and on the sample \<^verbatim>\<open>"( 1 + ( 12 * 2 )"\<close>
  (\<open>unclosed_sample\<close>). On an empty stack, line 147 reads \<^verbatim>\<open>operatorStack.top()\<close> before the
  test of line 161 or 170 can be reached: the call is undefined and returns no failure, for
  the token sequence of a lone right bracket and for the tokens of \<^verbatim>\<open>"1 )"\<close>.
\<close>

theorem right_bracket_on_empty_stack_undefined:
  "shuntToken \<lparr>operatorStack = [], outputQueue = queue\<rparr> '')'' returnArray = Return Undefined
   \<and> shuntInfixToRPN newShuntingYard ['')''] returnArray = Undefined
   \<and> shuntInfixToRPN newShuntingYard (tokenise ''1 )'') returnArray = Undefined"
proof -
  have tokens: "tokenise ''1 )'' = [''1'', '')'', []]"
    by code_simp
  have step:
    "shuntToken \<lparr>operatorStack = [], outputQueue = queue\<rparr> '')'' returnArray = Return Undefined"
    by (simp add: shuntToken_def closeParenthesis_def verifyInteger_iff isdigit_def isOperator_def)
  have alone: "shuntInfixToRPN newShuntingYard ['')''] returnArray = Undefined"
    by code_simp
  have after: "shuntInfixToRPN newShuntingYard [''1'', '')'', []] returnArray = Undefined"
    by code_simp
  show ?thesis
    by (simp add: tokens step alone after)
qed

section \<open>The early return on a single value\<close>

text \<open>
  Claim C5. When the loop of the calculator has processed the tokens \<open>before\<close> and the value
  stack holds exactly one value \<open>v\<close>, an operator token makes the call return \<^verbatim>\<open>true\<close> with
  the result \<open>v\<close>, whatever the operator and whatever tokens remain: the operator is not
  applied, the remaining tokens are not read, and no failure is reported. The value is
  popped (line 274).
\<close>

theorem single_value_early_return:
  "calcLoop s before result = Next s' \<Longrightarrow> valueStack s' = [v] \<Longrightarrow> isOperator tok \<Longrightarrow>
     calculatePostfix s (before @ tok # remaining) result = Success (\<lparr>valueStack = []\<rparr>, v)"
  by (simp add: calculatePostfix_def calcLoop_append calcToken_operator)

theorem single_value_early_return_witness:
  "calculatePostfix newRPN [''7'', ''+'', ''x'', '')'', ''1''] 0 = Success (\<lparr>valueStack = []\<rparr>, 7)"
proof -
  have loop: "calcLoop newRPN [''7''] 0 = Next \<lparr>valueStack = [7]\<rparr>"
    by code_simp
  have plus: "isOperator ''+''"
    by (simp add: isOperator_def)
  show ?thesis
    using single_value_early_return [OF loop _ plus, of 7 "[''x'', '')'', ''1'']"] by simp
qed

section \<open>Operators are pushed with no comparison\<close>

text \<open>
  With no brackets the operators stay on the stack until the end, whatever their symbols:
  \<^verbatim>\<open>"2 * 3 + 1"\<close> becomes 2 3 1 + * and evaluates to 8.
\<close>

lemma sample_without_precedence:
  "shuntInfixToRPN newShuntingYard (tokenise ''2 * 3 + 1'') [] =
     Success (newShuntingYard, [''2'', ''3'', ''1'', ''+'', ''*''])
   \<and> evaluate ''2 * 3 + 1'' result = Success 8"
proof -
  have tokens: "tokenise ''2 * 3 + 1'' = [''2'', ''*'', ''3'', ''+'', ''1'', []]"
    by code_simp
  have shunted: "shuntInfixToRPN newShuntingYard [''2'', ''*'', ''3'', ''+'', ''1'', []] [] =
      Success (newShuntingYard, [''2'', ''3'', ''1'', ''+'', ''*''])"
    by code_simp
  have calculated: "calculatePostfix newRPN [''2'', ''3'', ''1'', ''+'', ''*''] result =
      Success (\<lparr>valueStack = [8]\<rparr>, 8)"
    by code_simp
  show ?thesis
    by (simp add: evaluate_def tokens shunted calculated)
qed

lemma shuntToken_operator:
  "isOperator tok \<Longrightarrow> shuntToken s tok ra = Next (s\<lparr>operatorStack := tok # operatorStack s\<rparr>)"
  by (simp add: shuntToken_def isOperator_not_integer)

lemma shuntLoop_snoc_operator:
  "shuntLoop s before ra = Next s1 \<Longrightarrow> isOperator tok \<Longrightarrow>
     shuntLoop s (before @ [tok]) ra = Next (s1\<lparr>operatorStack := tok # operatorStack s1\<rparr>)"
  by (simp add: shuntLoop_append shuntToken_operator)

lemma shuntToken_no_right_bracket:
  assumes "tok \<noteq> '')''" and "shuntToken s tok ra = Next s'"
  shows "operatorStack s' = (if isOperator tok \<or> tok = ''('' then tok # operatorStack s else operatorStack s)
    \<and> outputQueue s' = (if verifyInteger tok then outputQueue s @ [tok] else outputQueue s)"
proof -
  have "verifyInteger tok \<Longrightarrow> tok \<noteq> ''(''"
    using isParenthesis_not_integer [of tok] by (auto simp: isParenthesis_def)
  with assms show ?thesis
    by (auto simp: shuntToken_def isOperator_not_integer split: if_splits)
qed

lemma shuntLoop_no_right_bracket:
  "'')'' \<notin> set toks \<Longrightarrow> shuntLoop s toks ra = Next s' \<Longrightarrow>
     operatorStack s' = rev (filter (\<lambda>t. isOperator t \<or> t = ''('') toks) @ operatorStack s
     \<and> outputQueue s' = outputQueue s @ filter verifyInteger toks"
proof (induction toks arbitrary: s)
  case Nil
  then show ?case by simp
next
  case (Cons tok toks)
  from Cons.prems(2) obtain s1 where step: "shuntToken s tok ra = Next s1"
    and rest: "shuntLoop s1 toks ra = Next s'"
    by (auto split: flow.splits)
  from Cons.prems(1) have tok: "tok \<noteq> '')''" and toks: "'')'' \<notin> set toks"
    by auto
  from shuntToken_no_right_bracket [OF tok step] Cons.IH [OF toks rest]
  show ?case
    by (simp split: if_splits)
qed

lemma shuntLoop_integers_operators:
  "\<forall>t \<in> set toks. verifyInteger t \<or> isOperator t \<or> t = [] \<Longrightarrow>
     shuntLoop s toks ra =
       Next \<lparr>operatorStack = rev (filter isOperator toks) @ operatorStack s,
             outputQueue = outputQueue s @ filter verifyInteger toks\<rparr>"
proof (induction toks arbitrary: s)
  case Nil
  then show ?case by simp
next
  case (Cons tok toks)
  from Cons.prems consider "verifyInteger tok" | "isOperator tok" | "tok = []"
    by auto
  then have step: "shuntToken s tok ra =
      Next \<lparr>operatorStack = (if isOperator tok then [tok] else []) @ operatorStack s,
            outputQueue = outputQueue s @ (if verifyInteger tok then [tok] else [])\<rparr>"
  proof cases
    case 1
    then have "\<not> isOperator tok"
      using isOperator_not_integer by auto
    with 1 show ?thesis
      by (simp add: shuntToken_def)
  next
    case 2
    then show ?thesis
      by (simp add: shuntToken_operator isOperator_not_integer)
  next
    case 3
    then show ?thesis
      by (simp add: shuntToken_empty verifyInteger_def isOperator_def)
  qed
  from Cons.prems have "\<forall>t \<in> set toks. verifyInteger t \<or> isOperator t \<or> t = []"
    by simp
  from Cons.IH [OF this] step show ?case
    by simp
qed

lemma drainLoop_operators:
  "\<forall>t \<in> set stk. \<not> isParenthesis t \<Longrightarrow>
     drainLoop stk q ra = Next \<lparr>operatorStack = [], outputQueue = q @ stk\<rparr>"
  by (induction stk q ra rule: drainLoop.induct) auto

lemma shunt_integers_operators:
  assumes "\<forall>t \<in> set toks. verifyInteger t \<or> isOperator t \<or> t = []"
  shows "shuntInfixToRPN newShuntingYard toks ra =
     Success (newShuntingYard, ra @ filter verifyInteger toks @ rev (filter isOperator toks))"
proof -
  have "\<forall>t \<in> set (rev (filter isOperator toks)). \<not> isParenthesis t"
    using isParenthesis_not_operator by auto
  from drainLoop_operators [OF this] shuntLoop_integers_operators [OF assms]
  show ?thesis
    by (simp add: shuntInfixToRPN_def newShuntingYard_def copyLoop_eq)
qed

text \<open>
  Claim C6. An operator token is pushed on the operator stack in every state of the shunter:
  the branch of line 130 reads neither the stack nor the queue. Over a run of the loop: when
  the loop has processed the tokens \<open>before\<close> and the next token is an operator, the loop
  goes on with that operator on top of the stack it had reached, and the output queue as it
  was. While no right bracket is read nothing leaves the stack: after a sequence of tokens
  with no right bracket the stack is the old stack below all the operators and left brackets
  of the sequence, the last one on top, and the queue has received the integers only. For a
  whole call on integers and operators (and empty tokens) the operators leave the stack in
  the final drain alone: the postfix sequence is the integers in their order, followed by
  the operators in the reverse of their order, whatever their symbols.
\<close>

theorem operator_pushed_unconditionally:
  "(isOperator tok \<longrightarrow>
      shuntToken s tok ra = Next (s\<lparr>operatorStack := tok # operatorStack s\<rparr>))
   \<and> (tok \<noteq> '')'' \<and> shuntToken s tok ra = Next s' \<longrightarrow>
      outputQueue s' = (if verifyInteger tok then outputQueue s @ [tok] else outputQueue s)
      \<and> (operatorStack s' = operatorStack s \<or> operatorStack s' = tok # operatorStack s))
   \<and> (shuntLoop s before ra = Next sb \<and> isOperator tok \<longrightarrow>
      shuntLoop s (before @ [tok]) ra = Next (sb\<lparr>operatorStack := tok # operatorStack sb\<rparr>))
   \<and> ('')'' \<notin> set toks \<and> shuntLoop s toks ra = Next sn \<longrightarrow>
      operatorStack sn = rev (filter (\<lambda>t. isOperator t \<or> t = ''('') toks) @ operatorStack s
      \<and> outputQueue sn = outputQueue s @ filter verifyInteger toks)
   \<and> ((\<forall>t \<in> set inputTokens. verifyInteger t \<or> isOperator t \<or> t = []) \<longrightarrow>
      shuntInfixToRPN newShuntingYard inputTokens ra =
        Success (newShuntingYard,
          ra @ filter verifyInteger inputTokens @ rev (filter isOperator inputTokens)))"
proof (intro conjI impI)
  assume "isOperator tok"
  then show "shuntToken s tok ra = Next (s\<lparr>operatorStack := tok # operatorStack s\<rparr>)"
    by (rule shuntToken_operator)
next
  assume a: "tok \<noteq> '')'' \<and> shuntToken s tok ra = Next s'"
  then have b: "operatorStack s' = (if isOperator tok \<or> tok = ''('' then tok # operatorStack s else operatorStack s)
    \<and> outputQueue s' = (if verifyInteger tok then outputQueue s @ [tok] else outputQueue s)"
    using shuntToken_no_right_bracket [of tok s ra s'] by simp
  from b show "outputQueue s' = (if verifyInteger tok then outputQueue s @ [tok] else outputQueue s)"
    by simp
  from b show "operatorStack s' = operatorStack s \<or> operatorStack s' = tok # operatorStack s"
    by (simp split: if_splits)
next
  assume "shuntLoop s before ra = Next sb \<and> isOperator tok"
  then show "shuntLoop s (before @ [tok]) ra = Next (sb\<lparr>operatorStack := tok # operatorStack sb\<rparr>)"
    by (simp add: shuntLoop_snoc_operator)
next
  assume a: "'')'' \<notin> set toks \<and> shuntLoop s toks ra = Next sn"
  then have b: "operatorStack sn = rev (filter (\<lambda>t. isOperator t \<or> t = ''('') toks) @ operatorStack s
     \<and> outputQueue sn = outputQueue s @ filter verifyInteger toks"
    using shuntLoop_no_right_bracket [of toks s ra sn] by simp
  from b show "operatorStack sn = rev (filter (\<lambda>t. isOperator t \<or> t = ''('') toks) @ operatorStack s"
    by simp
  from b show "outputQueue sn = outputQueue s @ filter verifyInteger toks"
    by simp
next
  assume "\<forall>t \<in> set inputTokens. verifyInteger t \<or> isOperator t \<or> t = []"
  then show "shuntInfixToRPN newShuntingYard inputTokens ra =
        Success (newShuntingYard,
          ra @ filter verifyInteger inputTokens @ rev (filter isOperator inputTokens))"
    by (rule shunt_integers_operators)
qed

theorem operator_pushed_unconditionally_witness:
  "isOperator ''+''
   \<and> shuntToken \<lparr>operatorStack = [''*''], outputQueue = [''1'', ''2'']\<rparr> ''+'' [] =
       Next \<lparr>operatorStack = [''+'', ''*''], outputQueue = [''1'', ''2'']\<rparr>
   \<and> shuntLoop newShuntingYard [''1'', ''*'', ''2'', ''+''] [] =
       Next \<lparr>operatorStack = [''+'', ''*''], outputQueue = [''1'', ''2'']\<rparr>
   \<and> shuntLoop newShuntingYard [''('', ''2'', ''*'', ''3'', ''+'', ''1''] [] =
       Next \<lparr>operatorStack = [''+'', ''*'', ''(''], outputQueue = [''2'', ''3'', ''1'']\<rparr>
   \<and> shuntInfixToRPN newShuntingYard [''2'', ''*'', ''3'', ''+'', ''1'', []] [] =
       Success (newShuntingYard, [''2'', ''3'', ''1'', ''+'', ''*''])"
proof -
  have plus: "isOperator ''+''"
    by (simp add: isOperator_def)
  have before: "shuntLoop newShuntingYard [''1'', ''*'', ''2''] [] =
      Next \<lparr>operatorStack = [''*''], outputQueue = [''1'', ''2'']\<rparr>"
    by code_simp
  have run: "shuntLoop newShuntingYard [''('', ''2'', ''*'', ''3'', ''+'', ''1''] [] =
      Next \<lparr>operatorStack = [''+'', ''*'', ''(''], outputQueue = [''2'', ''3'', ''1'']\<rparr>"
    by code_simp
  have no_right: "'')'' \<notin> set [''('', ''2'', ''*'', ''3'', ''+'', ''1'']"
    by simp
  have classes: "\<forall>t \<in> set [''2'', ''*'', ''3'', ''+'', ''1'', []].
      verifyInteger t \<or> isOperator t \<or> t = []"
    by code_simp
  have filters:
    "filter verifyInteger [''2'', ''*'', ''3'', ''+'', ''1'', []] = [''2'', ''3'', ''1'']
     \<and> rev (filter isOperator [''2'', ''*'', ''3'', ''+'', ''1'', []]) = [''+'', ''*'']"
    by code_simp
  show ?thesis
    using operator_pushed_unconditionally
      [where tok = "''+''" and s = "\<lparr>operatorStack = [''*''], outputQueue = [''1'', ''2'']\<rparr>"
         and ra = "[]"
         and s' = "\<lparr>operatorStack = [''+'', ''*''], outputQueue = [''1'', ''2'']\<rparr>"]
      operator_pushed_unconditionally
      [where tok = "''+''" and s = newShuntingYard and before = "[''1'', ''*'', ''2'']"
         and ra = "[]" and sb = "\<lparr>operatorStack = [''*''], outputQueue = [''1'', ''2'']\<rparr>"
         and toks = "[''('', ''2'', ''*'', ''3'', ''+'', ''1'']"
         and sn = "\<lparr>operatorStack = [''+'', ''*'', ''(''], outputQueue = [''2'', ''3'', ''1'']\<rparr>"
         and inputTokens = "[''2'', ''*'', ''3'', ''+'', ''1'', []]"]
      plus before run no_right classes filters
    by simp
qed

section \<open>The sample expression \<^verbatim>\<open>4 + ( 12 / ( 1 * 2 ) )\<close>\<close>

lemma tokens_nested:
  "tokenise ''4 + ( 12 / ( 1 * 2 ) )'' =
     [''4'', ''+'', ''('', ''12'', ''/'', ''('', ''1'', ''*'', ''2'', '')'', '')'', []]"
  by code_simp

text \<open>
  Claim C7. Evaluating \<^verbatim>\<open>"4 + ( 12 / ( 1 * 2 ) )"\<close> succeeds: from the tokens of the string a
  new shunter writes exactly the postfix sequence 4 12 1 2 * / + to an empty return array,
  the calculator computes 10 from that sequence, and \<^verbatim>\<open>evaluate\<close> returns \<^verbatim>\<open>true\<close> with the
  result 10.
\<close>

theorem evaluate_nested_example:
  "shuntInfixToRPN newShuntingYard (tokenise ''4 + ( 12 / ( 1 * 2 ) )'') [] =
     Success (newShuntingYard, [''4'', ''12'', ''1'', ''2'', ''*'', ''/'', ''+''])
   \<and> calculatePostfix newRPN [''4'', ''12'', ''1'', ''2'', ''*'', ''/'', ''+''] result =
     Success (\<lparr>valueStack = [10]\<rparr>, 10)
   \<and> evaluate ''4 + ( 12 / ( 1 * 2 ) )'' result = Success 10"
proof -
  have shunted:
    "shuntInfixToRPN newShuntingYard
       [''4'', ''+'', ''('', ''12'', ''/'', ''('', ''1'', ''*'', ''2'', '')'', '')'', []] [] =
     Success (newShuntingYard, [''4'', ''12'', ''1'', ''2'', ''*'', ''/'', ''+''])"
    by code_simp
  have calculated:
    "calculatePostfix newRPN [''4'', ''12'', ''1'', ''2'', ''*'', ''/'', ''+''] result =
     Success (\<lparr>valueStack = [10]\<rparr>, 10)"
    by code_simp
  show ?thesis
    by (simp add: evaluate_def tokens_nested shunted calculated)
qed

section \<open>Invalid tokens and the empty token\<close>

lemma shuntToken_invalid:
  "\<not> verifyInteger tok \<Longrightarrow> \<not> isOperator tok \<Longrightarrow> \<not> isParenthesis tok \<Longrightarrow> tok \<noteq> [] \<Longrightarrow>
     shuntToken s tok ra = Return (Failure InvalidToken (s, ra))"
  by (simp add: shuntToken_def isParenthesis_def)

lemma shunt_one_plus_x:
  "shuntInfixToRPN newShuntingYard (tokenise ''1 + x'') ra =
     Failure InvalidToken (\<lparr>operatorStack = [''+''], outputQueue = [''1'']\<rparr>, ra)"
proof -
  have tokens: "tokenise ''1 + x'' = [''1'', ''+'', ''x'', []]"
    by code_simp
  have "shuntInfixToRPN newShuntingYard [''1'', ''+'', ''x'', []] ra =
     Failure InvalidToken (\<lparr>operatorStack = [''+''], outputQueue = [''1'']\<rparr>, ra)"
    by code_simp
  then show ?thesis
    by (simp add: tokens)
qed

text \<open>
  Claim C8. When the loop of the shunter reaches a token that is not an integer, not an
  operator, not a bracket and not empty, the call returns \<^verbatim>\<open>false\<close> at the failure point of
  an invalid token (line 186), with the stack and the queue as they were before the token.
  The empty token is the one exception: it changes neither the operator stack nor the output
  queue and the loop goes on, so that a token sequence with an empty token has the outcome of
  the sequence without it. The tokens of \<^verbatim>\<open>"1 + x"\<close> fail as an invalid token.
\<close>

theorem invalid_token_fails_empty_ignored:
  "(shuntLoop s before ra = Next s' \<and>
    \<not> verifyInteger tok \<and> \<not> isOperator tok \<and> \<not> isParenthesis tok \<and> tok \<noteq> [] \<longrightarrow>
      shuntToken s' tok ra = Return (Failure InvalidToken (s', ra))
      \<and> shuntInfixToRPN s (before @ tok # remaining) ra = Failure InvalidToken (s', ra))
   \<and> shuntToken s [] ra = Next s
   \<and> shuntInfixToRPN s (before @ [] # remaining) ra = shuntInfixToRPN s (before @ remaining) ra
   \<and> shuntInfixToRPN newShuntingYard (tokenise ''1 + x'') ra =
       Failure InvalidToken (\<lparr>operatorStack = [''+''], outputQueue = [''1'']\<rparr>, ra)"
proof (intro conjI impI)
  assume a: "shuntLoop s before ra = Next s' \<and>
    \<not> verifyInteger tok \<and> \<not> isOperator tok \<and> \<not> isParenthesis tok \<and> tok \<noteq> []"
  then show step: "shuntToken s' tok ra = Return (Failure InvalidToken (s', ra))"
    by (simp add: shuntToken_invalid)
  from a show "shuntInfixToRPN s (before @ tok # remaining) ra = Failure InvalidToken (s', ra)"
    by (simp add: shuntInfixToRPN_def shuntLoop_append step)
next
  show "shuntToken s [] ra = Next s"
    by (rule shuntToken_empty)
next
  have "shuntLoop s (before @ [] # remaining) ra = shuntLoop s (before @ remaining) ra"
    by (simp add: shuntLoop_append shuntToken_empty split: flow.splits)
  then show "shuntInfixToRPN s (before @ [] # remaining) ra =
      shuntInfixToRPN s (before @ remaining) ra"
    by (simp add: shuntInfixToRPN_def)
next
  show "shuntInfixToRPN newShuntingYard (tokenise ''1 + x'') ra =
       Failure InvalidToken (\<lparr>operatorStack = [''+''], outputQueue = [''1'']\<rparr>, ra)"
    by (rule shunt_one_plus_x)
qed

theorem invalid_token_fails_empty_ignored_witness:
  "shuntInfixToRPN newShuntingYard [''1'', ''+'', ''x'', ''2''] [] =
     Failure InvalidToken (\<lparr>operatorStack = [''+''], outputQueue = [''1'']\<rparr>, [])
   \<and> shuntInfixToRPN newShuntingYard [''1'', ''+'', [], ''2''] [] =
     Success (newShuntingYard, [''1'', ''2'', ''+''])"
proof -
  have loop: "shuntLoop newShuntingYard [''1'', ''+''] [] =
      Next \<lparr>operatorStack = [''+''], outputQueue = [''1'']\<rparr>"
    by code_simp
  have invalid:
    "\<not> verifyInteger ''x'' \<and> \<not> isOperator ''x'' \<and> \<not> isParenthesis ''x'' \<and> ''x'' \<noteq> []"
    by code_simp
  have without: "shuntInfixToRPN newShuntingYard [''1'', ''+'', ''2''] [] =
      Success (newShuntingYard, [''1'', ''2'', ''+''])"
    by code_simp
  show ?thesis
    using invalid_token_fails_empty_ignored
      [of newShuntingYard "[''1'', ''+'']" "[]"
          "\<lparr>operatorStack = [''+''], outputQueue = [''1'']\<rparr>" "''x''" "[''2'']"]
      loop invalid without
    by simp
qed

section \<open>No bracket in the postfix sequence\<close>

text \<open>
  The invariant of the loop over the tokens: no right bracket on the operator stack (only
  operators and left brackets are pushed) and no bracket in the output queue.
\<close>

lemma popUntilLeft_no_parenthesis:
  "popUntilLeft t below q = (t', stk, q') \<Longrightarrow> '')'' \<notin> set (t # below) \<Longrightarrow>
     ''('' \<notin> set q \<Longrightarrow> '')'' \<notin> set q \<Longrightarrow>
     '')'' \<notin> set stk \<and> ''('' \<notin> set q' \<and> '')'' \<notin> set q'"
  by (induction t below q rule: popUntilLeft.induct) (auto split: if_splits)

lemma closeParenthesis_no_parenthesis:
  assumes "closeParenthesis s ra = Next s'"
    and "'')'' \<notin> set (operatorStack s)" and "''('' \<notin> set (outputQueue s)"
    and "'')'' \<notin> set (outputQueue s)"
  shows "'')'' \<notin> set (operatorStack s') \<and> ''('' \<notin> set (outputQueue s')
    \<and> '')'' \<notin> set (outputQueue s')"
proof (cases "operatorStack s")
  case Nil
  with assms(1) show ?thesis
    by (simp add: closeParenthesis_def)
next
  case (Cons t below)
  obtain t' stk q' where p: "popUntilLeft t below (outputQueue s) = (t', stk, q')"
    by (cases "popUntilLeft t below (outputQueue s)") auto
  from popUntilLeft_no_parenthesis [OF p] assms(2-4) Cons
  have inv: "'')'' \<notin> set stk \<and> ''('' \<notin> set q' \<and> '')'' \<notin> set q'"
    by simp
  have s': "s' = \<lparr>operatorStack = (if stk = [] then stk else tl stk), outputQueue = q'\<rparr>"
    using assms(1) Cons p by (simp add: closeParenthesis_def Let_def split: if_splits)
  have "'')'' \<notin> set (tl stk)"
    using inv by (cases stk) simp_all
  with inv show ?thesis
    by (simp add: s')
qed

lemma shuntToken_no_parenthesis:
  assumes "shuntToken s tok ra = Next s'"
    and "'')'' \<notin> set (operatorStack s)" and "''('' \<notin> set (outputQueue s)"
    and "'')'' \<notin> set (outputQueue s)"
  shows "'')'' \<notin> set (operatorStack s') \<and> ''('' \<notin> set (outputQueue s')
    \<and> '')'' \<notin> set (outputQueue s')"
proof (cases "tok = '')''")
  case True
  with assms(1) have "closeParenthesis s ra = Next s'"
    by (simp add: shuntToken_def verifyInteger_iff isdigit_def isOperator_def)
  from closeParenthesis_no_parenthesis [OF this assms(2-4)] show ?thesis .
next
  case False
  have "verifyInteger tok \<Longrightarrow> tok \<noteq> ''(''"
    using isParenthesis_not_integer [of tok] by (auto simp: isParenthesis_def)
  with False assms show ?thesis
    by (auto simp: shuntToken_def split: if_splits)
qed

lemma shuntLoop_no_parenthesis:
  "shuntLoop s toks ra = Next s' \<Longrightarrow>
     '')'' \<notin> set (operatorStack s) \<Longrightarrow> ''('' \<notin> set (outputQueue s) \<Longrightarrow>
     '')'' \<notin> set (outputQueue s) \<Longrightarrow>
     '')'' \<notin> set (operatorStack s') \<and> ''('' \<notin> set (outputQueue s') \<and> '')'' \<notin> set (outputQueue s')"
proof (induction toks arbitrary: s)
  case Nil
  then show ?case by simp
next
  case (Cons tok toks)
  from Cons.prems(1) obtain s1 where step: "shuntToken s tok ra = Next s1"
    and rest: "shuntLoop s1 toks ra = Next s'"
    by (auto split: flow.splits)
  from shuntToken_no_parenthesis [OF step Cons.prems(2-4)]
  show ?case
    using Cons.IH [OF rest] by simp
qed

lemma drainLoop_no_parenthesis:
  "drainLoop stk q ra = Next s2 \<Longrightarrow> ''('' \<notin> set q \<Longrightarrow> '')'' \<notin> set q \<Longrightarrow>
     ''('' \<notin> set (outputQueue s2) \<and> '')'' \<notin> set (outputQueue s2)"
  by (induction stk q ra rule: drainLoop.induct)
     (auto simp: isParenthesis_def split: if_splits)

text \<open>The loops return \<^verbatim>\<open>false\<close> or are undefined when they return at all.\<close>

lemma shuntToken_not_success: "shuntToken s tok ra \<noteq> Return (Success x)"
  by (auto simp: shuntToken_def closeParenthesis_def Let_def
           split: if_splits list.splits prod.splits)

lemma shuntLoop_not_success: "shuntLoop s toks ra \<noteq> Return (Success x)"
  by (induction toks arbitrary: s)
     (auto split: flow.splits simp: shuntToken_not_success)

lemma drainLoop_not_success: "drainLoop stk q ra \<noteq> Return (Success x)"
  by (induction stk q ra rule: drainLoop.induct) auto

text \<open>
  Claim C9. When a new shunter, called with an empty return array as \<^verbatim>\<open>evaluate\<close> does,
  returns \<^verbatim>\<open>true\<close> on a token sequence, neither bracket occurs in the postfix sequence it
  has written to the return array.
\<close>

theorem postfix_has_no_parenthesis:
  "shuntInfixToRPN newShuntingYard inputTokens [] = Success (s', postfix) \<Longrightarrow>
     ''('' \<notin> set postfix \<and> '')'' \<notin> set postfix"
proof -
  assume ok: "shuntInfixToRPN newShuntingYard inputTokens [] = Success (s', postfix)"
  then obtain s1 where loop: "shuntLoop newShuntingYard inputTokens [] = Next s1"
    by (auto simp: shuntInfixToRPN_def shuntLoop_not_success split: flow.splits)
  with ok obtain s2 where drain: "drainLoop (operatorStack s1) (outputQueue s1) [] = Next s2"
    by (auto simp: shuntInfixToRPN_def drainLoop_not_success split: flow.splits)
  from ok loop drain have postfix: "postfix = outputQueue s2"
    by (simp add: shuntInfixToRPN_def copyLoop_eq)
  from shuntLoop_no_parenthesis [OF loop]
  have "''('' \<notin> set (outputQueue s1) \<and> '')'' \<notin> set (outputQueue s1)"
    by (simp add: newShuntingYard_def)
  with drainLoop_no_parenthesis [OF drain] show ?thesis
    by (simp add: postfix)
qed

theorem postfix_has_no_parenthesis_witness:
  "shuntInfixToRPN newShuntingYard [''('', ''1'', ''+'', ''3'', '')'', ''*'', ''2'', []] [] =
     Success (newShuntingYard, [''1'', ''3'', ''+'', ''2'', ''*''])
   \<and> ''('' \<notin> set [''1'', ''3'', ''+'', ''2'', ''*'']
   \<and> '')'' \<notin> set [''1'', ''3'', ''+'', ''2'', ''*'']"
proof -
  have shunted:
    "shuntInfixToRPN newShuntingYard [''('', ''1'', ''+'', ''3'', '')'', ''*'', ''2'', []] [] =
     Success (newShuntingYard, [''1'', ''3'', ''+'', ''2'', ''*''])"
    by code_simp
  show ?thesis
    using postfix_has_no_parenthesis [OF shunted] shunted by simp
qed

section \<open>The return array after a failure\<close>

lemma shuntToken_returnArray:
  "shuntToken s tok ra = Return (Failure f (s', ra')) \<Longrightarrow> ra' = ra"
  by (auto simp: shuntToken_def closeParenthesis_def Let_def
           split: if_splits list.splits prod.splits)

lemma shuntLoop_returnArray:
  "shuntLoop s toks ra = Return (Failure f (s', ra')) \<Longrightarrow> ra' = ra"
  by (induction toks arbitrary: s)
     (auto split: flow.splits dest: shuntToken_returnArray)

lemma drainLoop_returnArray:
  "drainLoop stk q ra = Return (Failure f (s', ra')) \<Longrightarrow> ra' = ra"
  by (induction stk q ra rule: drainLoop.induct) (auto split: if_splits)

text \<open>
  Claim C10. Whenever \<^verbatim>\<open>shuntInfixToRPN\<close> returns \<^verbatim>\<open>false\<close>, from any state of the shunter and
  at any of its three failure points, the return array of the caller is what it was before
  the call: the only statement that writes to it (line 217) comes after the last of them.
\<close>

theorem returnArray_unchanged_on_failure:
  "shuntInfixToRPN s inputTokens returnArray = Failure f (s', returnArray') \<Longrightarrow>
     returnArray' = returnArray"
  by (auto simp: shuntInfixToRPN_def copyLoop_eq split: flow.splits
           dest: shuntLoop_returnArray drainLoop_returnArray)

theorem returnArray_unchanged_on_failure_witness:
  "shuntInfixToRPN newShuntingYard
     [''('', ''1'', ''+'', ''('', ''12'', ''*'', ''2'', '')'', []] [''9'', ''9''] =
   Failure MismatchedParenthesis
     (\<lparr>operatorStack = [''(''], outputQueue = [''1'', ''12'', ''2'', ''*'', ''+'']\<rparr>,
      [''9'', ''9''])"
proof -
  have failed:
    "shuntInfixToRPN newShuntingYard
       [''('', ''1'', ''+'', ''('', ''12'', ''*'', ''2'', '')'', []] [''9'', ''9''] =
     Failure MismatchedParenthesis
       (\<lparr>operatorStack = [''(''], outputQueue = [''1'', ''12'', ''2'', ''*'', ''+'']\<rparr>,
        [''9'', ''9''])"
    by code_simp
  show ?thesis
    using returnArray_unchanged_on_failure [OF failed] failed by simp
qed

end
